theory Spec2Isabelle
  imports Main "HOL-Library.Sublist"
begin

section \<open>Result model\<close>

text \<open>
  Modelled from the spec: the enumeration \<open>Status\<close> is declared in
  \<^verbatim>\<open>scim2_tester/utils.py\<close>, which is not part of the sources at hand. The data model
  names it as the closed enumeration SUCCESS, ERROR, SKIPPED.
\<close>

datatype Status = SUCCESS | ERROR | SKIPPED

text \<open>
  The protocol objects a query hands back. \<^verbatim>\<open>checker.py\<close> only ever asks two things of
  a response: whether it is an instance of \<open>Error\<close>, and, if so, what its \<open>status\<close>
  field holds (an optional integer in the protocol models). Every other parsed object
  (a user, a list response, ...) is a \<open>NonError\<close> carrying its content.
\<close>

datatype Resource =
    Error "int option" string
  | NonError string

text \<open>
  What the \<open>data\<close> field of a result can hold in \<^verbatim>\<open>checker.py\<close>: the raw content of a
  response (\<^verbatim>\<open>exc.response.content\<close>) or the parsed object itself.
\<close>

datatype Data = Bytes string | Object Resource

text \<open>
  Modelled from the spec: the class \<open>CheckResult\<close> is declared in
  \<^verbatim>\<open>scim2_tester/utils.py\<close>, which is not part of the sources at hand. The data model
  gives it a status, a title, an optional reason and optional data; the constructor calls
  of \<^verbatim>\<open>checker.py\<close> pass \<open>status\<close>, \<open>reason\<close> and sometimes \<open>data\<close>, never a title, so
  every field but the status defaults to \<open>None\<close>.
\<close>

record CheckResult =
  status :: Status
  title :: "string option"
  reason :: "string option"
  data :: "Data option"

text \<open>
  The exceptions \<^verbatim>\<open>checker.py\<close> tells apart: \<open>httpx.HTTPError\<close>, the client's
  \<open>SCIMClientError\<close> (which carries the response, of which the raw content is read),
  and anything else. The first argument is what \<open>str(exc)\<close> yields.
\<close>

datatype Exception =
    HTTPError string
  | SCIMClientError string string
  | OtherException string

fun str_exc :: "Exception \<Rightarrow> string" where
  "str_exc (HTTPError msg) = msg"
| "str_exc (SCIMClientError msg content) = msg"
| "str_exc (OtherException msg) = msg"

text \<open>
  A check returns either a bare \<open>CheckResult\<close> or a tuple of a \<open>CheckResult\<close> and a
  payload: \<open>check_random_url\<close> does the former on its four error paths and the latter on
  success.
\<close>

datatype 'p Returned =
    Bare CheckResult
  | Tupled CheckResult 'p

fun result_of :: "'p Returned \<Rightarrow> CheckResult" where
  "result_of (Bare r) = r"
| "result_of (Tupled r p) = r"

text \<open>
  The client: \<open>query\<close> maps the requested URL to the parsed object, or raises.
\<close>

record SCIMClient =
  query :: "string \<Rightarrow> Exception + Resource"

section \<open>Rendering integers as Python does\<close>

definition digit_char :: "nat \<Rightarrow> char" where
  "digit_char d = char_of (48 + d)"

fun str_nat :: "nat \<Rightarrow> string" where
  "str_nat n = (if n < 10 then [digit_char n] else str_nat (n div 10) @ [digit_char (n mod 10)])"

declare str_nat.simps [simp del]

definition str_int :: "int \<Rightarrow> string" where
  "str_int i = (if i < 0 then ''-'' @ str_nat (nat (- i)) else str_nat (nat i))"

text \<open>The \<open>status\<close> of an \<open>Error\<close> inside an f-string: \<open>None\<close> or the decimal number.\<close>

fun str_status :: "int option \<Rightarrow> string" where
  "str_status None = ''None''"
| "str_status (Some i) = str_int i"

section \<open>The check wrapper\<close>

text \<open>
  Modelled from the spec: part of the decorator of \<^verbatim>\<open>scim2_tester/utils.py\<close>, which is
  not part of the sources at hand. A result that passes through gets a title derived
  from the check if the check did not set one.
\<close>

definition with_title :: "string \<Rightarrow> CheckResult \<Rightarrow> CheckResult" where
  "with_title name r = (if title r = None then r\<lparr>title := Some name\<rparr> else r)"

text \<open>
  Modelled from the spec: the decorator \<open>decorate_result\<close> is defined in
  \<^verbatim>\<open>scim2_tester/utils.py\<close>, which is not part of the sources at hand. The wrapper calls
  the check once. A transport failure becomes an ERROR result whose reason is the
  stringified error; a protocol failure becomes an ERROR result with a description and
  the raw response body as data; any other raised condition becomes an ERROR result
  carrying the failure description. A normal return, bare or tupled, passes through,
  with a title derived from the check's name if the check did not set one.
\<close>

definition decorate_result ::
  "string \<Rightarrow> ('a \<Rightarrow> Exception + 'p Returned) \<Rightarrow> 'a \<Rightarrow> 'p Returned" where
  "decorate_result name func args =
     (case func args of
        Inl (HTTPError msg) \<Rightarrow>
          Bare \<lparr>status = ERROR, title = Some name, reason = Some msg, data = None\<rparr>
      | Inl (SCIMClientError msg content) \<Rightarrow>
          Bare \<lparr>status = ERROR, title = Some name, reason = Some msg,
                data = Some (Bytes content)\<rparr>
      | Inl (OtherException msg) \<Rightarrow>
          Bare \<lparr>status = ERROR, title = Some name, reason = Some msg, data = None\<rparr>
      | Inr (Bare r) \<Rightarrow> Bare (with_title name r)
      | Inr (Tupled r p) \<Rightarrow> Tupled (with_title name r) p)"

section \<open>The random URL check\<close>

text \<open>
  The body of \<open>check_random_url\<close>, lines 24 to 60 of \<^verbatim>\<open>checker.py\<close>. The string
  \<open>uuid4\<close> is what \<^verbatim>\<open>str(uuid.uuid4())\<close> drew in this run. The two \<open>except\<close> clauses
  catch \<open>HTTPError\<close> and \<open>SCIMClientError\<close>; any other exception leaves the body.
\<close>

definition probably_invalid_url :: "string \<Rightarrow> string" where
  "probably_invalid_url uuid4 = ''/'' @ uuid4"

definition check_random_url_body ::
  "string \<Rightarrow> SCIMClient \<Rightarrow> Exception + Resource Returned" where
  "check_random_url_body uuid4 scim =
     (case query scim (probably_invalid_url uuid4) of
        Inl (HTTPError msg) \<Rightarrow>
          Inr (Bare \<lparr>status = ERROR, title = None, reason = Some msg, data = None\<rparr>)
      | Inl (SCIMClientError msg content) \<Rightarrow>
          Inr (Bare \<lparr>status = ERROR, title = None,
                     reason = Some (probably_invalid_url uuid4 @ '' did not return an Error object''),
                     data = Some (Bytes content)\<rparr>)
      | Inl (OtherException msg) \<Rightarrow> Inl (OtherException msg)
      | Inr response \<Rightarrow>
          (case response of
             NonError c \<Rightarrow>
               Inr (Bare \<lparr>status = ERROR, title = None,
                          reason = Some (probably_invalid_url uuid4 @ '' did not return an Error object''),
                          data = Some (Object response)\<rparr>)
           | Error st detail \<Rightarrow>
               if st \<noteq> Some 404 then
                 Inr (Bare \<lparr>status = ERROR, title = None,
                            reason = Some (probably_invalid_url uuid4
                              @ '' did return an object, but the status code is ''
                              @ str_status st),
                            data = Some (Object response)\<rparr>)
               else
                 Inr (Tupled \<lparr>status = SUCCESS, title = None,
                              reason = Some (probably_invalid_url uuid4
                                @ '' correctly returned a 404 error''),
                              data = None\<rparr> response)))"

text \<open>The decorated check, as the module exports it.\<close>

definition check_random_url :: "string \<Rightarrow> SCIMClient \<Rightarrow> Resource Returned" where
  "check_random_url uuid4 scim =
     decorate_result ''check_random_url'' (check_random_url_body uuid4) scim"


section \<open>The server check\<close>

text \<open>
  \<open>check_server\<close> calls four functions of modules that are not part of the sources at
  hand: the three endpoint checks and \<open>check_resource_type\<close>. They are parameters
  here. An endpoint check hands back what a decorated check can: a bare result or a
  tuple of result and payload. The payload of the resource types check is what the
  \<open>for\<close> loop iterates over: a list, or \<open>None\<close>.
\<close>

record ('spc, 'sch, 'rt) Checks =
  check_service_provider_config_endpoint :: "SCIMClient \<Rightarrow> 'spc Returned"
  check_schemas_endpoint :: "SCIMClient \<Rightarrow> 'sch Returned"
  check_resource_types_endpoint :: "SCIMClient \<Rightarrow> 'rt list option Returned"
  check_resource_type :: "SCIMClient \<Rightarrow> 'rt \<Rightarrow> 'spc \<Rightarrow> CheckResult list"

text \<open>
  The assignment \<^verbatim>\<open>result, payload = check(scim)\<close>: a tuple is taken apart, a bare
  \<open>CheckResult\<close> is not iterable and the assignment raises.
\<close>

fun unpack :: "'p Returned \<Rightarrow> Exception + (CheckResult \<times> 'p)" where
  "unpack (Tupled r p) = Inr (r, p)"
| "unpack (Bare r) = Inl (OtherException ''cannot unpack non-iterable CheckResult object'')"

text \<open>
  The report holds whatever was appended: results, and the value \<open>check_random_url\<close>
  returned, which is a tuple when the check succeeded.
\<close>

type_synonym Report = "Resource Returned list"

text \<open>The loop of lines 81 to 84: \<open>results.extend\<close> for each resource type in turn.\<close>

fun resource_checks ::
  "('spc, 'sch, 'rt) Checks \<Rightarrow> SCIMClient \<Rightarrow> 'spc \<Rightarrow> 'rt list \<Rightarrow> Report \<Rightarrow> Report" where
  "resource_checks cs scim service_provider_config [] results = results"
| "resource_checks cs scim service_provider_config (resource_type # rest) results =
     resource_checks cs scim service_provider_config rest
       (results @ map Bare (check_resource_type cs scim resource_type service_provider_config))"

definition check_server ::
  "('spc, 'sch, 'rt) Checks \<Rightarrow> string \<Rightarrow> SCIMClient \<Rightarrow> Exception + Report" where
  "check_server cs uuid4 scim =
     (case unpack (check_service_provider_config_endpoint cs scim) of
        Inl exc \<Rightarrow> Inl exc
      | Inr (result1, service_provider_config) \<Rightarrow>
     (case unpack (check_schemas_endpoint cs scim) of
        Inl exc \<Rightarrow> Inl exc
      | Inr (result2, schemas) \<Rightarrow>
     (case unpack (check_resource_types_endpoint cs scim) of
        Inl exc \<Rightarrow> Inl exc
      | Inr (result3, resource_types) \<Rightarrow>
          (let results = [Bare result1, Bare result2, Bare result3];
               results = results @ [check_random_url uuid4 scim]
           in case resource_types of
                None \<Rightarrow> Inl (OtherException ''NoneType object is not iterable'')
              | Some rts \<Rightarrow>
                  Inr (resource_checks cs scim service_provider_config rts results)))))"

section \<open>Reading a report\<close>

definition status_title :: "'p Returned \<Rightarrow> Status \<times> string option" where
  "status_title e = (status (result_of e), title (result_of e))"

definition status_titles :: "Exception + Report \<Rightarrow> Exception + (Status \<times> string option) list" where
  "status_titles run = (case run of Inl exc \<Rightarrow> Inl exc | Inr report \<Rightarrow> Inr (map status_title report))"

text \<open>Whether a query came back with an \<open>Error\<close> object whose status is 404.\<close>

fun returns_404 :: "Exception + Resource \<Rightarrow> bool" where
  "returns_404 (Inr (Error st detail)) = (st = Some 404)"
| "returns_404 (Inr (NonError c)) = False"
| "returns_404 (Inl exc) = False"

text \<open>
  Whether the reason of the result is the message of an exception, unchanged: the
  transport error branch of the check, and the wrapper's branch for other exceptions.
\<close>

fun passes_message :: "Exception + Resource \<Rightarrow> bool" where
  "passes_message (Inl (HTTPError msg)) = True"
| "passes_message (Inl (OtherException msg)) = True"
| "passes_message (Inl (SCIMClientError msg content)) = False"
| "passes_message (Inr response) = False"

section \<open>Example runs\<close>

definition uuid_a :: string where
  "uuid_a = ''6f1c0b52-8f0e-4c7e-9a57-0d6c2c1b4e11''"

definition uuid_b :: string where
  "uuid_b = ''0a9d3e77-41b2-4f6a-8c15-e2b7f0c4d921''"

text \<open>A server that answers every query the same way.\<close>

definition answering :: "Exception + Resource \<Rightarrow> SCIMClient" where
  "answering outcome = \<lparr>query = (\<lambda>url. outcome)\<rparr>"

text \<open>A stateless server that serves an object at one path and a 404 error elsewhere.\<close>

definition serving_one :: SCIMClient where
  "serving_one = \<lparr>query = (\<lambda>url. if url = ''/'' @ uuid_a then Inr (NonError ''User'')
                                  else Inr (Error (Some 404) ''not found''))\<rparr>"

text \<open>
  Checks of a run in which the service provider configuration could not be fetched, the
  two other endpoints answered, and the lifecycle of each resource type was attempted
  and failed.
\<close>

definition failed_config_checks :: "(string option, string list, string) Checks" where
  "failed_config_checks =
     \<lparr>check_service_provider_config_endpoint = (\<lambda>scim.
        Tupled \<lparr>status = ERROR, title = Some ''check_service_provider_config_endpoint'',
                reason = Some ''connection refused'', data = None\<rparr> None),
      check_schemas_endpoint = (\<lambda>scim.
        Tupled \<lparr>status = SUCCESS, title = Some ''check_schemas_endpoint'',
                reason = None, data = None\<rparr> [''urn:ietf:params:scim:schemas:core:2.0:User'']),
      check_resource_types_endpoint = (\<lambda>scim.
        Tupled \<lparr>status = SUCCESS, title = Some ''check_resource_types_endpoint'',
                reason = None, data = None\<rparr> (Some [''User'', ''Group''])),
      check_resource_type = (\<lambda>scim resource_type service_provider_config.
        [\<lparr>status = ERROR, title = Some ''check_object_creation'',
          reason = Some (''could not create a '' @ resource_type), data = None\<rparr>])\<rparr>"

text \<open>
  The same run with a service provider configuration check that hands back a bare
  result, as the wrapper does when the check's body lets a transport error through.
\<close>

definition bare_config_checks :: "(string option, string list, string) Checks" where
  "bare_config_checks =
     failed_config_checks\<lparr>check_service_provider_config_endpoint :=
       decorate_result ''check_service_provider_config_endpoint''
         (\<lambda>scim. Inl (HTTPError ''connection refused''))\<rparr>"

section \<open>Properties of the wrapper\<close>

lemma with_title_fields [simp]:
  "status (with_title name r) = status r"
  "reason (with_title name r) = reason r"
  "data (with_title name r) = data r"
  by (simp_all add: with_title_def)

lemma with_title_unset [simp]:
  "title r = None \<Longrightarrow> title (with_title name r) = Some name"
  by (simp add: with_title_def)

text \<open>
  C1: whatever exception a check function raises, the decorated check does not let it
  through: the wrapper returns a single result with status ERROR, titled after the
  check, whose reason is the description of the failure. The type of the wrapper's
  value has no room for an exception.
\<close>

theorem decorate_result_never_raises:
  assumes "func args = Inl exc"
  shows "\<exists>r. decorate_result name func args = Bare r
           \<and> status r = ERROR
           \<and> title r = Some name
           \<and> reason r = Some (str_exc exc)"
  using assms by (cases exc) (simp_all add: decorate_result_def)

text \<open>
  A check that raises an exception of neither known kind, wrapped.
\<close>

theorem decorate_result_never_raises_witness:
  "(\<lambda>scim::SCIMClient. (Inl (OtherException ''division by zero'') :: Exception + Resource Returned))
       (answering (Inr (NonError ''User''))) = Inl (OtherException ''division by zero'')
   \<and> decorate_result ''check_anything''
       (\<lambda>scim::SCIMClient. (Inl (OtherException ''division by zero'') :: Exception + Resource Returned))
       (answering (Inr (NonError ''User'')))
     = Bare \<lparr>status = ERROR, title = Some ''check_anything'',
             reason = Some ''division by zero'', data = None\<rparr>"
  using decorate_result_never_raises
    [of "\<lambda>scim::SCIMClient. (Inl (OtherException ''division by zero'') :: Exception + Resource Returned)"
        "answering (Inr (NonError ''User''))" "OtherException ''division by zero''" "''check_anything''"]
  by (simp add: decorate_result_def)

section \<open>Properties of the random URL check\<close>

text \<open>
  The decorated check, branch by branch: the wrapper adds the title to what the body
  returns, and turns an exception the body does not catch into an ERROR result.
\<close>

lemma check_random_url_cases:
  "check_random_url uuid4 scim =
     (case query scim (probably_invalid_url uuid4) of
        Inl (HTTPError msg) \<Rightarrow>
          Bare \<lparr>status = ERROR, title = Some ''check_random_url'', reason = Some msg, data = None\<rparr>
      | Inl (SCIMClientError msg content) \<Rightarrow>
          Bare \<lparr>status = ERROR, title = Some ''check_random_url'',
                reason = Some (probably_invalid_url uuid4 @ '' did not return an Error object''),
                data = Some (Bytes content)\<rparr>
      | Inl (OtherException msg) \<Rightarrow>
          Bare \<lparr>status = ERROR, title = Some ''check_random_url'', reason = Some msg, data = None\<rparr>
      | Inr (NonError c) \<Rightarrow>
          Bare \<lparr>status = ERROR, title = Some ''check_random_url'',
                reason = Some (probably_invalid_url uuid4 @ '' did not return an Error object''),
                data = Some (Object (NonError c))\<rparr>
      | Inr (Error st detail) \<Rightarrow>
          if st \<noteq> Some 404 then
            Bare \<lparr>status = ERROR, title = Some ''check_random_url'',
                  reason = Some (probably_invalid_url uuid4
                    @ '' did return an object, but the status code is '' @ str_status st),
                  data = Some (Object (Error st detail))\<rparr>
          else
            Tupled \<lparr>status = SUCCESS, title = Some ''check_random_url'',
                    reason = Some (probably_invalid_url uuid4 @ '' correctly returned a 404 error''),
                    data = None\<rparr> (Error st detail))"
  by (simp add: check_random_url_def decorate_result_def check_random_url_body_def with_title_def
      split: sum.splits Exception.splits Resource.splits)

text \<open>
  C2: the result of \<open>check_random_url\<close> has status SUCCESS if and only if the query of
  the random URL returns, without raising, an \<open>Error\<close> object whose status is exactly
  404.
\<close>

theorem check_random_url_success_iff:
  "status (result_of (check_random_url uuid4 scim)) = SUCCESS
     \<longleftrightarrow> (\<exists>detail. query scim (probably_invalid_url uuid4) = Inr (Error (Some 404) detail))"
  by (simp add: check_random_url_cases split: sum.splits Exception.splits Resource.splits)

text \<open>
  A server answering 404 passes the check, a server answering 403 does not.
\<close>

theorem check_random_url_success_iff_witness:
  "status (result_of (check_random_url uuid_a (answering (Inr (Error (Some 404) ''not found''))))) = SUCCESS
   \<and> status (result_of (check_random_url uuid_a (answering (Inr (Error (Some 403) ''forbidden''))))) \<noteq> SUCCESS"
  using check_random_url_success_iff [of uuid_a "answering (Inr (Error (Some 404) ''not found''))"]
        check_random_url_success_iff [of uuid_a "answering (Inr (Error (Some 403) ''forbidden''))"]
  by (simp add: answering_def)

text \<open>
  The claim C3 as it is written asks for a reason mentioning "did return an object"
  whenever the query returns a parsed object. A server that answers the random URL with
  a user object gets the reason "did not return an Error object", which does not contain
  that phrase.
\<close>

theorem check_random_url_parsed_object_counterexample:
  "query (answering (Inr (NonError ''User''))) (probably_invalid_url uuid_a) = Inr (NonError ''User'')
   \<and> reason (result_of (check_random_url uuid_a (answering (Inr (NonError ''User'')))))
       = Some ''/6f1c0b52-8f0e-4c7e-9a57-0d6c2c1b4e11 did not return an Error object''
   \<and> \<not> sublist ''did return an object''
         ''/6f1c0b52-8f0e-4c7e-9a57-0d6c2c1b4e11 did not return an Error object''"
proof -
  have "\<not> sublist ''did return an object''
         ''/6f1c0b52-8f0e-4c7e-9a57-0d6c2c1b4e11 did not return an Error object''"
    by code_simp
  then show ?thesis
    by (simp add: check_random_url_cases answering_def probably_invalid_url_def uuid_a_def)
qed

text \<open>
  C3, amended: when the query returns a parsed object other than an \<open>Error\<close> with status
  404, the result has status ERROR and carries that object as data. The reason says
  "did return an object, but the status code is ..." when the object is an \<open>Error\<close>,
  and "did not return an Error object" when it is any other object.
\<close>

theorem check_random_url_parsed_object:
  assumes "query scim (probably_invalid_url uuid4) = Inr response"
    and "\<not> returns_404 (Inr response)"
  shows "status (result_of (check_random_url uuid4 scim)) = ERROR
       \<and> data (result_of (check_random_url uuid4 scim)) = Some (Object response)
       \<and> reason (result_of (check_random_url uuid4 scim)) =
           (case response of
              Error st detail \<Rightarrow>
                Some (probably_invalid_url uuid4
                  @ '' did return an object, but the status code is '' @ str_status st)
            | NonError c \<Rightarrow>
                Some (probably_invalid_url uuid4 @ '' did not return an Error object''))"
  using assms by (cases response) (simp_all add: check_random_url_cases)

text \<open>
  The server answering with a user object.
\<close>

theorem check_random_url_parsed_object_witness:
  "query (answering (Inr (NonError ''User''))) (probably_invalid_url uuid_a) = Inr (NonError ''User'')
   \<and> \<not> returns_404 (Inr (NonError ''User''))
   \<and> status (result_of (check_random_url uuid_a (answering (Inr (NonError ''User''))))) = ERROR
   \<and> data (result_of (check_random_url uuid_a (answering (Inr (NonError ''User'')))))
       = Some (Object (NonError ''User''))
   \<and> reason (result_of (check_random_url uuid_a (answering (Inr (NonError ''User'')))))
       = Some ''/6f1c0b52-8f0e-4c7e-9a57-0d6c2c1b4e11 did not return an Error object''"
  using check_random_url_parsed_object [of "answering (Inr (NonError ''User''))" uuid_a "NonError ''User''"]
  by (simp add: answering_def probably_invalid_url_def uuid_a_def)

text \<open>
  C5: when the query raises a transport error, the result has status ERROR, its reason
  is the stringified error and no data is attached.
\<close>

theorem check_random_url_transport_error:
  assumes "query scim (probably_invalid_url uuid4) = Inl (HTTPError msg)"
  shows "status (result_of (check_random_url uuid4 scim)) = ERROR
       \<and> reason (result_of (check_random_url uuid4 scim)) = Some (str_exc (HTTPError msg))
       \<and> data (result_of (check_random_url uuid4 scim)) = None"
  using assms by (simp add: check_random_url_cases)

text \<open>
  A server that cannot be reached.
\<close>

theorem check_random_url_transport_error_witness:
  "query (answering (Inl (HTTPError ''connection refused''))) (probably_invalid_url uuid_a)
     = Inl (HTTPError ''connection refused'')
   \<and> status (result_of (check_random_url uuid_a
        (answering (Inl (HTTPError ''connection refused''))))) = ERROR
   \<and> reason (result_of (check_random_url uuid_a
        (answering (Inl (HTTPError ''connection refused''))))) = Some ''connection refused''
   \<and> data (result_of (check_random_url uuid_a
        (answering (Inl (HTTPError ''connection refused''))))) = None"
  using check_random_url_transport_error
    [of "answering (Inl (HTTPError ''connection refused''))" uuid_a "''connection refused''"]
  by (simp add: answering_def)

text \<open>
  C6: when the query raises the client's parse error, the result has status ERROR, its
  reason says that the URL did not return an Error object, and its data is the raw
  content of the response.
\<close>

theorem check_random_url_parse_error:
  assumes "query scim (probably_invalid_url uuid4) = Inl (SCIMClientError msg content)"
  shows "status (result_of (check_random_url uuid4 scim)) = ERROR
       \<and> reason (result_of (check_random_url uuid4 scim))
           = Some (probably_invalid_url uuid4 @ '' did not return an Error object'')
       \<and> data (result_of (check_random_url uuid4 scim)) = Some (Bytes content)"
  using assms by (simp add: check_random_url_cases)

text \<open>
  A server answering with a web page.
\<close>

theorem check_random_url_parse_error_witness:
  "query (answering (Inl (SCIMClientError ''unexpected content'' ''<html>hello</html>'')))
      (probably_invalid_url uuid_a) = Inl (SCIMClientError ''unexpected content'' ''<html>hello</html>'')
   \<and> status (result_of (check_random_url uuid_a
        (answering (Inl (SCIMClientError ''unexpected content'' ''<html>hello</html>''))))) = ERROR
   \<and> reason (result_of (check_random_url uuid_a
        (answering (Inl (SCIMClientError ''unexpected content'' ''<html>hello</html>'')))))
       = Some ''/6f1c0b52-8f0e-4c7e-9a57-0d6c2c1b4e11 did not return an Error object''
   \<and> data (result_of (check_random_url uuid_a
        (answering (Inl (SCIMClientError ''unexpected content'' ''<html>hello</html>'')))))
       = Some (Bytes ''<html>hello</html>'')"
  using check_random_url_parse_error
    [of "answering (Inl (SCIMClientError ''unexpected content'' ''<html>hello</html>''))" uuid_a
        "''unexpected content''" "''<html>hello</html>''"]
  by (simp add: answering_def probably_invalid_url_def uuid_a_def)

text \<open>
  C7: when the query returns an \<open>Error\<close> object whose status is not 404, the result has
  status ERROR, its reason ends with the status as the f-string renders it, and its data
  is the \<open>Error\<close> object itself.
\<close>

theorem check_random_url_wrong_status:
  assumes "query scim (probably_invalid_url uuid4) = Inr (Error st detail)"
    and "st \<noteq> Some 404"
  shows "status (result_of (check_random_url uuid4 scim)) = ERROR
       \<and> (\<exists>text. reason (result_of (check_random_url uuid4 scim)) = Some text
            \<and> text = probably_invalid_url uuid4
                 @ '' did return an object, but the status code is '' @ str_status st
            \<and> sublist (str_status st) text)
       \<and> data (result_of (check_random_url uuid4 scim)) = Some (Object (Error st detail))"
proof -
  have "sublist (str_status st)
          ((probably_invalid_url uuid4 @ '' did return an object, but the status code is '')
             @ str_status st)"
    by (rule sublist_append_leftI)
  with assms show ?thesis
    by (simp add: check_random_url_cases)
qed

text \<open>
  The rendering of a status, on an example.
\<close>

lemma str_int_400: "str_int 400 = ''400''"
  by code_simp

text \<open>
  A server answering 400.
\<close>

theorem check_random_url_wrong_status_witness:
  "query (answering (Inr (Error (Some 400) ''bad request''))) (probably_invalid_url uuid_a)
     = Inr (Error (Some 400) ''bad request'')
   \<and> Some 400 \<noteq> Some (404::int)
   \<and> status (result_of (check_random_url uuid_a (answering (Inr (Error (Some 400) ''bad request''))))) = ERROR
   \<and> reason (result_of (check_random_url uuid_a (answering (Inr (Error (Some 400) ''bad request'')))))
       = Some ''/6f1c0b52-8f0e-4c7e-9a57-0d6c2c1b4e11 did return an object, but the status code is 400''
   \<and> data (result_of (check_random_url uuid_a (answering (Inr (Error (Some 400) ''bad request'')))))
       = Some (Object (Error (Some 400) ''bad request''))"
  using check_random_url_wrong_status
    [of "answering (Inr (Error (Some 400) ''bad request''))" uuid_a "Some 400" "''bad request''"]
  by (simp add: answering_def probably_invalid_url_def uuid_a_def str_int_400)

text \<open>
  The claim C10 as it is written asks for a non-empty reason on every branch. On the
  transport error branch the reason is \<open>str(exc)\<close>, and a transport error whose message
  is empty gives an empty reason.
\<close>

theorem check_random_url_empty_reason_counterexample:
  "query (answering (Inl (HTTPError ''''))) (probably_invalid_url uuid_a) = Inl (HTTPError '''')
   \<and> reason (result_of (check_random_url uuid_a (answering (Inl (HTTPError ''''))))) = Some ''''"
  by (simp add: check_random_url_cases answering_def)

text \<open>
  C10, amended: on every branch that builds the reason from the URL (success, the
  parsed object that is not an \<open>Error\<close>, the \<open>Error\<close> with another status, the parse
  error) the result has a reason, and it is not the empty string. Only where the reason
  is the message of an exception does its length depend on that message.
\<close>

theorem check_random_url_reason_nonempty:
  assumes "\<not> passes_message (query scim (probably_invalid_url uuid4))"
  shows "\<exists>text. reason (result_of (check_random_url uuid4 scim)) = Some text \<and> text \<noteq> ''''"
  using assms
  by (auto simp add: check_random_url_cases probably_invalid_url_def
      split: sum.splits Exception.splits Resource.splits)

text \<open>
  The success branch has a reason.
\<close>

theorem check_random_url_reason_nonempty_witness:
  "\<not> passes_message (query (answering (Inr (Error (Some 404) ''not found''))) (probably_invalid_url uuid_a))
   \<and> reason (result_of (check_random_url uuid_a (answering (Inr (Error (Some 404) ''not found'')))))
       = Some ''/6f1c0b52-8f0e-4c7e-9a57-0d6c2c1b4e11 correctly returned a 404 error''"
  using check_random_url_reason_nonempty [of "answering (Inr (Error (Some 404) ''not found''))" uuid_a]
  by (simp add: answering_def check_random_url_cases probably_invalid_url_def uuid_a_def)

section \<open>Properties of the server check\<close>

text \<open>
  The loop appends, in the order of the list, what \<open>check_resource_type\<close> returns for
  each resource type.
\<close>

lemma resource_checks_concat:
  "resource_checks cs scim spc rts results =
     results @ concat (map (\<lambda>rt. map Bare (check_resource_type cs scim rt spc)) rts)"
  by (induction rts arbitrary: results) simp_all

text \<open>
  When the three endpoint checks hand back tuples and the resource types are a list,
  the run returns its report.
\<close>

lemma check_server_tupled:
  assumes "check_service_provider_config_endpoint cs scim = Tupled r1 spc"
    and "check_schemas_endpoint cs scim = Tupled r2 sch"
    and "check_resource_types_endpoint cs scim = Tupled r3 (Some rts)"
  shows "check_server cs uuid4 scim =
           Inr ([Bare r1, Bare r2, Bare r3, check_random_url uuid4 scim]
                @ concat (map (\<lambda>rt. map Bare (check_resource_type cs scim rt spc)) rts))"
  using assms by (simp add: check_server_def resource_checks_concat)

text \<open>
  Conversely, a run that returns a report has taken three tuples apart and iterated
  over a list.
\<close>

lemma check_server_returns:
  assumes "check_server cs uuid4 scim = Inr report"
  shows "\<exists>r1 spc r2 sch r3 rts.
           check_service_provider_config_endpoint cs scim = Tupled r1 spc
         \<and> check_schemas_endpoint cs scim = Tupled r2 sch
         \<and> check_resource_types_endpoint cs scim = Tupled r3 (Some rts)"
proof -
  obtain r1 spc where a: "check_service_provider_config_endpoint cs scim = Tupled r1 spc"
    using assms by (cases "check_service_provider_config_endpoint cs scim")
      (simp_all add: check_server_def)
  obtain r2 sch where b: "check_schemas_endpoint cs scim = Tupled r2 sch"
    using assms a by (cases "check_schemas_endpoint cs scim")
      (simp_all add: check_server_def)
  obtain r3 p where c: "check_resource_types_endpoint cs scim = Tupled r3 p"
    using assms a b by (cases "check_resource_types_endpoint cs scim")
      (simp_all add: check_server_def)
  obtain rts where d: "p = Some rts"
    using assms a b c by (cases p) (simp_all add: check_server_def)
  from a b c d show ?thesis by blast
qed

text \<open>
  C8: the report that \<open>check_server\<close> returns holds, in this order, the result of the
  service provider configuration check, of the schemas check, of the resource types
  check, what the random URL check returned, and then the results of each resource
  type, in the order in which the resource types check listed them. No status is read
  on the way, so the order does not depend on any outcome.
\<close>

theorem check_server_order:
  assumes "check_server cs uuid4 scim = Inr report"
  shows "\<exists>r1 spc r2 sch r3 rts.
           check_service_provider_config_endpoint cs scim = Tupled r1 spc
         \<and> check_schemas_endpoint cs scim = Tupled r2 sch
         \<and> check_resource_types_endpoint cs scim = Tupled r3 (Some rts)
         \<and> report = [Bare r1, Bare r2, Bare r3, check_random_url uuid4 scim]
                    @ concat (map (\<lambda>rt. map Bare (check_resource_type cs scim rt spc)) rts)"
proof -
  from check_server_returns [OF assms] obtain r1 spc r2 sch r3 rts where
    shape: "check_service_provider_config_endpoint cs scim = Tupled r1 spc"
           "check_schemas_endpoint cs scim = Tupled r2 sch"
           "check_resource_types_endpoint cs scim = Tupled r3 (Some rts)"
    by blast
  from check_server_tupled [OF shape, of uuid4] assms
  have "report = [Bare r1, Bare r2, Bare r3, check_random_url uuid4 scim]
                 @ concat (map (\<lambda>rt. map Bare (check_resource_type cs scim rt spc)) rts)"
    by simp
  with shape show ?thesis by blast
qed

text \<open>
  The report of the example run, entry by entry.
\<close>

lemma failed_config_report:
  "check_server failed_config_checks uuid_a (answering (Inr (Error (Some 404) ''not found''))) =
     Inr [Bare \<lparr>status = ERROR, title = Some ''check_service_provider_config_endpoint'',
                reason = Some ''connection refused'', data = None\<rparr>,
          Bare \<lparr>status = SUCCESS, title = Some ''check_schemas_endpoint'',
                reason = None, data = None\<rparr>,
          Bare \<lparr>status = SUCCESS, title = Some ''check_resource_types_endpoint'',
                reason = None, data = None\<rparr>,
          Tupled \<lparr>status = SUCCESS, title = Some ''check_random_url'',
                  reason = Some ''/6f1c0b52-8f0e-4c7e-9a57-0d6c2c1b4e11 correctly returned a 404 error'',
                  data = None\<rparr> (Error (Some 404) ''not found''),
          Bare \<lparr>status = ERROR, title = Some ''check_object_creation'',
                reason = Some ''could not create a User'', data = None\<rparr>,
          Bare \<lparr>status = ERROR, title = Some ''check_object_creation'',
                reason = Some ''could not create a Group'', data = None\<rparr>]"
  by (simp add: check_server_def failed_config_checks_def check_random_url_cases answering_def
      probably_invalid_url_def uuid_a_def)

text \<open>
  The example run: the configuration check failed, the report is in the stated order.
\<close>

theorem check_server_order_witness:
  "check_server failed_config_checks uuid_a (answering (Inr (Error (Some 404) ''not found''))) =
     Inr ([Bare \<lparr>status = ERROR, title = Some ''check_service_provider_config_endpoint'',
                reason = Some ''connection refused'', data = None\<rparr>,
          Bare \<lparr>status = SUCCESS, title = Some ''check_schemas_endpoint'',
                reason = None, data = None\<rparr>,
          Bare \<lparr>status = SUCCESS, title = Some ''check_resource_types_endpoint'',
                reason = None, data = None\<rparr>,
          check_random_url uuid_a (answering (Inr (Error (Some 404) ''not found'')))]
        @ concat (map (\<lambda>rt. map Bare (check_resource_type failed_config_checks
              (answering (Inr (Error (Some 404) ''not found''))) rt None)) [''User'', ''Group'']))"
proof -
  let ?scim = "answering (Inr (Error (Some 404) ''not found''))"
  obtain report where run: "check_server failed_config_checks uuid_a ?scim = Inr report"
    using failed_config_report by blast
  from check_server_order [OF run] obtain r1 spc r2 sch r3 rts where
    "check_service_provider_config_endpoint failed_config_checks ?scim = Tupled r1 spc"
    "check_schemas_endpoint failed_config_checks ?scim = Tupled r2 sch"
    "check_resource_types_endpoint failed_config_checks ?scim = Tupled r3 (Some rts)"
    "report = [Bare r1, Bare r2, Bare r3, check_random_url uuid_a ?scim]
              @ concat (map (\<lambda>rt. map Bare (check_resource_type failed_config_checks ?scim rt spc)) rts)"
    by blast
  then show ?thesis
    unfolding run by (simp add: failed_config_checks_def)
qed

text \<open>
  The claim C4 as it is written asks that, when discovery fails, every lifecycle check
  appears as SKIPPED. \<open>check_server\<close> reads no status and skips nothing: in the example
  run the configuration check has status ERROR, \<open>check_resource_type\<close> is still called
  for both resource types with the payload it was given, and the report carries what it
  returned, here two ERROR results.
\<close>

theorem check_server_no_skipping_counterexample:
  "status (result_of (check_service_provider_config_endpoint failed_config_checks
       (answering (Inr (Error (Some 404) ''not found''))))) = ERROR
   \<and> status_titles (check_server failed_config_checks uuid_a
       (answering (Inr (Error (Some 404) ''not found'')))) =
     Inr [(ERROR, Some ''check_service_provider_config_endpoint''),
          (SUCCESS, Some ''check_schemas_endpoint''),
          (SUCCESS, Some ''check_resource_types_endpoint''),
          (SUCCESS, Some ''check_random_url''),
          (ERROR, Some ''check_object_creation''),
          (ERROR, Some ''check_object_creation'')]"
  by (simp add: failed_config_report status_titles_def status_title_def)
    (simp add: failed_config_checks_def)

text \<open>
  A run of \<open>check_server\<close> ends without a report when an endpoint check hands back a
  bare result, as \<open>check_random_url\<close> does on its error paths: the tuple assignment
  raises.
\<close>

lemma bare_config_raises:
  "check_server bare_config_checks uuid_a (answering (Inr (Error (Some 404) ''not found''))) =
     Inl (OtherException ''cannot unpack non-iterable CheckResult object'')"
  by (simp add: check_server_def bare_config_checks_def failed_config_checks_def
      decorate_result_def)

text \<open>
  C4, amended: whatever the statuses of the discovery results, when the three endpoint
  checks hand back a result with a payload and the resource types payload is a list,
  \<open>check_server\<close> completes and returns a report that is not empty: the four results of
  discovery and of the random URL check, followed by exactly what \<open>check_resource_type\<close>
  returns for each listed resource type, given the configuration payload as it is.
  \<open>check_server\<close> marks nothing as SKIPPED by itself.
\<close>

theorem check_server_completes:
  assumes "check_service_provider_config_endpoint cs scim = Tupled r1 spc"
    and "check_schemas_endpoint cs scim = Tupled r2 sch"
    and "check_resource_types_endpoint cs scim = Tupled r3 (Some rts)"
  shows "\<exists>report. check_server cs uuid4 scim = Inr report
           \<and> report \<noteq> []
           \<and> take 4 report = [Bare r1, Bare r2, Bare r3, check_random_url uuid4 scim]
           \<and> drop 4 report =
               concat (map (\<lambda>rt. map Bare (check_resource_type cs scim rt spc)) rts)"
  using check_server_tupled [OF assms, of uuid4] by simp

text \<open>
  The example run, in which the configuration check failed.
\<close>

theorem check_server_completes_witness:
  "check_service_provider_config_endpoint failed_config_checks
       (answering (Inr (Error (Some 404) ''not found'')))
     = Tupled \<lparr>status = ERROR, title = Some ''check_service_provider_config_endpoint'',
               reason = Some ''connection refused'', data = None\<rparr> None
   \<and> check_schemas_endpoint failed_config_checks (answering (Inr (Error (Some 404) ''not found'')))
     = Tupled \<lparr>status = SUCCESS, title = Some ''check_schemas_endpoint'',
               reason = None, data = None\<rparr> [''urn:ietf:params:scim:schemas:core:2.0:User'']
   \<and> check_resource_types_endpoint failed_config_checks
       (answering (Inr (Error (Some 404) ''not found'')))
     = Tupled \<lparr>status = SUCCESS, title = Some ''check_resource_types_endpoint'',
               reason = None, data = None\<rparr> (Some [''User'', ''Group''])
   \<and> (\<exists>report. check_server failed_config_checks uuid_a
          (answering (Inr (Error (Some 404) ''not found''))) = Inr report
        \<and> report \<noteq> []
        \<and> drop 4 report =
            [Bare \<lparr>status = ERROR, title = Some ''check_object_creation'',
                   reason = Some ''could not create a User'', data = None\<rparr>,
             Bare \<lparr>status = ERROR, title = Some ''check_object_creation'',
                   reason = Some ''could not create a Group'', data = None\<rparr>])"
proof -
  let ?scim = "answering (Inr (Error (Some 404) ''not found''))"
  have a: "check_service_provider_config_endpoint failed_config_checks ?scim
     = Tupled \<lparr>status = ERROR, title = Some ''check_service_provider_config_endpoint'',
               reason = Some ''connection refused'', data = None\<rparr> None"
    by (simp add: failed_config_checks_def)
  have b: "check_schemas_endpoint failed_config_checks ?scim
     = Tupled \<lparr>status = SUCCESS, title = Some ''check_schemas_endpoint'',
               reason = None, data = None\<rparr> [''urn:ietf:params:scim:schemas:core:2.0:User'']"
    by (simp add: failed_config_checks_def)
  have c: "check_resource_types_endpoint failed_config_checks ?scim
     = Tupled \<lparr>status = SUCCESS, title = Some ''check_resource_types_endpoint'',
               reason = None, data = None\<rparr> (Some [''User'', ''Group''])"
    by (simp add: failed_config_checks_def)
  have d: "concat (map (\<lambda>rt. map Bare (check_resource_type failed_config_checks ?scim rt None))
              [''User'', ''Group'']) =
            [Bare \<lparr>status = ERROR, title = Some ''check_object_creation'',
                   reason = Some ''could not create a User'', data = None\<rparr>,
             Bare \<lparr>status = ERROR, title = Some ''check_object_creation'',
                   reason = Some ''could not create a Group'', data = None\<rparr>]"
    by (simp add: failed_config_checks_def)
  from check_server_completes [OF a b c, of uuid_a] d a b c show ?thesis
    by auto
qed

text \<open>
  The title and the status of the random URL check do not depend on the URL drawn, but
  for the answer of the server to it.
\<close>

lemma check_random_url_title:
  "title (result_of (check_random_url uuid4 scim)) = Some ''check_random_url''"
  by (simp add: check_random_url_cases split: sum.splits Exception.splits Resource.splits)

lemma check_random_url_status:
  "status (result_of (check_random_url uuid4 scim)) =
     (if returns_404 (query scim (probably_invalid_url uuid4)) then SUCCESS else ERROR)"
  by (simp add: check_random_url_cases split: sum.splits Exception.splits Resource.splits)

text \<open>
  The statuses and titles of a run.
\<close>

lemma status_titles_check_server:
  "status_titles (check_server cs uuid4 scim) =
     (case unpack (check_service_provider_config_endpoint cs scim) of
        Inl exc \<Rightarrow> Inl exc
      | Inr (r1, spc) \<Rightarrow>
     (case unpack (check_schemas_endpoint cs scim) of
        Inl exc \<Rightarrow> Inl exc
      | Inr (r2, sch) \<Rightarrow>
     (case unpack (check_resource_types_endpoint cs scim) of
        Inl exc \<Rightarrow> Inl exc
      | Inr (r3, None) \<Rightarrow> Inl (OtherException ''NoneType object is not iterable'')
      | Inr (r3, Some rts) \<Rightarrow>
          Inr ([(status r1, title r1), (status r2, title r2), (status r3, title r3),
                (if returns_404 (query scim (probably_invalid_url uuid4)) then SUCCESS else ERROR,
                 Some ''check_random_url'')]
               @ map status_title
                   (concat (map (\<lambda>rt. map Bare (check_resource_type cs scim rt spc)) rts)
                      :: Report)))))"
  by (simp add: check_server_def status_titles_def status_title_def resource_checks_concat
      check_random_url_title check_random_url_status
      split: sum.splits option.splits prod.splits)


text \<open>
  The claim C9 as it is written asks for the same statuses and titles in any two runs
  against an unchanged stateless server. Each run draws its own random URL, and a
  stateless server may answer two URLs differently: the server below serves an object at
  one path and a 404 error at every other, and the two runs differ in the status of the
  random URL check.
\<close>

theorem check_server_rerun_counterexample:
  "status_titles (check_server failed_config_checks uuid_a serving_one) =
     Inr [(ERROR, Some ''check_service_provider_config_endpoint''),
          (SUCCESS, Some ''check_schemas_endpoint''),
          (SUCCESS, Some ''check_resource_types_endpoint''),
          (ERROR, Some ''check_random_url''),
          (ERROR, Some ''check_object_creation''),
          (ERROR, Some ''check_object_creation'')]
   \<and> status_titles (check_server failed_config_checks uuid_b serving_one) =
     Inr [(ERROR, Some ''check_service_provider_config_endpoint''),
          (SUCCESS, Some ''check_schemas_endpoint''),
          (SUCCESS, Some ''check_resource_types_endpoint''),
          (SUCCESS, Some ''check_random_url''),
          (ERROR, Some ''check_object_creation''),
          (ERROR, Some ''check_object_creation'')]"
  by (simp add: status_titles_check_server failed_config_checks_def serving_one_def
      probably_invalid_url_def uuid_a_def uuid_b_def status_title_def)

text \<open>
  C9, amended: two runs of \<open>check_server\<close> against the same client, with the same
  endpoint and resource checks, yield the same sequence of statuses and titles (or
  raise the same exception) provided the server answers the two random URLs alike, that
  is, both or neither with an \<open>Error\<close> of status 404. The reasons may differ: they
  quote the URL.
\<close>

theorem check_server_rerun:
  assumes "returns_404 (query scim (probably_invalid_url uuid4)) =
           returns_404 (query scim (probably_invalid_url uuid4'))"
  shows "status_titles (check_server cs uuid4 scim) = status_titles (check_server cs uuid4' scim)"
  using assms by (simp add: status_titles_check_server)

text \<open>
  Two runs against a server answering 404 everywhere: the same statuses and titles,
  while what the random URL check returned differs in its reason.
\<close>

theorem check_server_rerun_witness:
  "returns_404 (query (answering (Inr (Error (Some 404) ''not found''))) (probably_invalid_url uuid_a)) =
   returns_404 (query (answering (Inr (Error (Some 404) ''not found''))) (probably_invalid_url uuid_b))
   \<and> status_titles (check_server failed_config_checks uuid_a
         (answering (Inr (Error (Some 404) ''not found'')))) =
     status_titles (check_server failed_config_checks uuid_b
         (answering (Inr (Error (Some 404) ''not found''))))
   \<and> check_random_url uuid_a (answering (Inr (Error (Some 404) ''not found''))) \<noteq>
     check_random_url uuid_b (answering (Inr (Error (Some 404) ''not found'')))"
  using check_server_rerun
    [of "answering (Inr (Error (Some 404) ''not found''))" uuid_a uuid_b failed_config_checks]
  by (simp add: answering_def check_random_url_cases probably_invalid_url_def uuid_a_def uuid_b_def)

end
